theory Spec2Isabelle
  imports Complex_Main
begin

section \<open>Python values\<close>

text \<open>
  The values the provider hands over in its \<open>info\<close> mapping and its news items are those
  of parsed JSON: \<open>None\<close>, booleans, integers, (finite) floats, strings, lists and
  dictionaries with string keys. A dictionary is an association list, so that the order
  of the keys of a dictionary the handlers build can be stated; a lookup takes the first
  binding of a key. Strings are ASCII text, one \<open>char\<close> per character.
\<close>

datatype pyval =
    PNone
  | PBool bool
  | PInt int
  | PFloat rat
  | PStr string
  | PList "pyval list"
  | PDict "(string \<times> pyval) list"

text \<open>Truth value testing, as \<open>or\<close> and \<open>not\<close> apply it.\<close>

fun truthy :: "pyval \<Rightarrow> bool" where
  "truthy PNone = False"
| "truthy (PBool b) = b"
| "truthy (PInt i) = (i \<noteq> 0)"
| "truthy (PFloat r) = (r \<noteq> 0)"
| "truthy (PStr s) = (s \<noteq> [])"
| "truthy (PList xs) = (xs \<noteq> [])"
| "truthy (PDict kvs) = (kvs \<noteq> [])"

definition py_or :: "pyval \<Rightarrow> pyval \<Rightarrow> pyval" where
  "py_or a b = (if truthy a then a else b)"

fun type_name :: "pyval \<Rightarrow> string" where
  "type_name PNone = ''NoneType''"
| "type_name (PBool b) = ''bool''"
| "type_name (PInt i) = ''int''"
| "type_name (PFloat r) = ''float''"
| "type_name (PStr s) = ''str''"
| "type_name (PList xs) = ''list''"
| "type_name (PDict kvs) = ''dict''"

text \<open>\<open>d.get(k)\<close> and \<open>d.get(k, default)\<close> on a dictionary.\<close>

type_synonym pydict = "(string \<times> pyval) list"

definition dict_get :: "pydict \<Rightarrow> string \<Rightarrow> pyval" where
  "dict_get d k = (case map_of d k of None \<Rightarrow> PNone | Some v \<Rightarrow> v)"

definition dict_get_default :: "pydict \<Rightarrow> string \<Rightarrow> pyval \<Rightarrow> pyval" where
  "dict_get_default d k dflt = (case map_of d k of None \<Rightarrow> dflt | Some v \<Rightarrow> v)"

text \<open>\<open>str.upper()\<close> on ASCII text.\<close>

definition upper_char :: "char \<Rightarrow> char" where
  "upper_char c =
     (if (97::nat) \<le> of_char c \<and> of_char c \<le> (122::nat)
      then char_of (of_char c - (32::nat)) else c)"

definition upper :: "string \<Rightarrow> string" where
  "upper s = map upper_char s"

section \<open>Exceptions\<close>

text \<open>
  The instances of Python's \<open>Exception\<close> that the handlers can meet: the ones the
  interpreter and pandas raise in the steps modelled below, and \<open>LibraryError\<close> for
  whatever the provider raises, with its message. \<open>str_exception\<close> is \<open>str(e)\<close>;
  for a \<open>KeyError\<close> that is the \<open>repr\<close> of the missing key.
\<close>

datatype exception =
    TypeError string
  | AttributeError string
  | ValueError string
  | KeyError string
  | LibraryError string

definition quoted :: "string \<Rightarrow> string" where
  "quoted s = CHR 0x27 # s @ [CHR 0x27]"

fun str_exception :: "exception \<Rightarrow> string" where
  "str_exception (TypeError m) = m"
| "str_exception (AttributeError m) = m"
| "str_exception (ValueError m) = m"
| "str_exception (KeyError k) = quoted k"
| "str_exception (LibraryError m) = m"

text \<open>
  \<open>v.get(k, default)\<close> on any value: only a dictionary has the method. The attribute
  is looked up before the arguments are evaluated.
\<close>

fun py_get :: "pyval \<Rightarrow> string \<Rightarrow> pyval \<Rightarrow> exception + pyval" where
  "py_get (PDict d) k dflt = Inr (dict_get_default d k dflt)"
| "py_get v k dflt =
     Inl (AttributeError (quoted (type_name v) @ '' object has no attribute '' @ quoted ''get''))"

text \<open>
  \<open>v[:n]\<close>: strings and lists are sliced; a dictionary takes the slice for a key, which
  is not hashable (CPython up to 3.11); every other value is not subscriptable.
\<close>

fun py_slice_to :: "nat \<Rightarrow> pyval \<Rightarrow> exception + pyval" where
  "py_slice_to n (PStr s) = Inr (PStr (take n s))"
| "py_slice_to n (PList xs) = Inr (PList (take n xs))"
| "py_slice_to n (PDict kvs) = Inl (TypeError (''unhashable type: '' @ quoted ''slice''))"
| "py_slice_to n v = Inl (TypeError (quoted (type_name v) @ '' object is not subscriptable''))"

section \<open>Tables\<close>

text \<open>
  A pandas \<open>DataFrame\<close>: the name of its index, its column labels, and its rows, each
  row its index label together with one cell per column. Labels are cells themselves
  (the provider's statement tables have timestamps for column labels). The index has a
  single level.
\<close>

datatype cell = CNull | CInt int | CFloat rat | CStr string | CTime int

record frame =
  index_name :: "string option"
  columns :: "cell list"
  rows :: "(cell \<times> cell list) list"

text \<open>\<open>df.empty\<close>: one of the two axes has length 0.\<close>

definition df_empty :: "frame \<Rightarrow> bool" where
  "df_empty df = (rows df = [] \<or> columns df = [])"

text \<open>
  \<open>df.reset_index()\<close>: the index becomes the first column, labelled with the index's
  name (\<open>index\<close> for an unnamed index, \<open>level_0\<close> when that label is taken); the
  insertion raises when the label is a column already. The rows are renumbered from 0.
\<close>

definition reset_label :: "frame \<Rightarrow> string" where
  "reset_label df =
     (case index_name df of
        Some n \<Rightarrow> n
      | None \<Rightarrow> if CStr ''index'' \<in> set (columns df) then ''level_0'' else ''index'')"

definition reset_index :: "frame \<Rightarrow> exception + frame" where
  "reset_index df =
     (if CStr (reset_label df) \<in> set (columns df)
      then Inl (ValueError (''cannot insert '' @ reset_label df @ '', already exists''))
      else Inr \<lparr>index_name = None,
                columns = CStr (reset_label df) # columns df,
                rows = map (\<lambda>(i, (l, cs)). (CInt (int i), l # cs))
                         (zip [0 ..< length (rows df)] (rows df))\<rparr>)"

text \<open>\<open>df[label]\<close> raises \<open>KeyError\<close> when no column has the label.\<close>

definition getitem :: "frame \<Rightarrow> string \<Rightarrow> exception + cell list" where
  "getitem df label =
     (if CStr label \<in> set (columns df)
      then Inr (concat (map (\<lambda>(l, cs). map snd (filter (\<lambda>(c, v). c = CStr label) (zip (columns df) cs)))
                  (rows df)))
      else Inl (KeyError label))"

text \<open>
  \<open>.astype(str)\<close> turns every value into its text. How pandas prints a number or a
  timestamp is the library's business: \<open>to_str\<close> is that function, a parameter.
\<close>

definition astype_str :: "(cell \<Rightarrow> string) \<Rightarrow> cell \<Rightarrow> cell" where
  "astype_str to_str c = (case c of CStr s \<Rightarrow> CStr s | _ \<Rightarrow> CStr (to_str c))"

text \<open>\<open>df[label] = df[label].astype(str)\<close> for a label that is a column.\<close>

definition column_astype_str :: "(cell \<Rightarrow> string) \<Rightarrow> string \<Rightarrow> frame \<Rightarrow> frame" where
  "column_astype_str to_str label df =
     df\<lparr>rows := map (\<lambda>(l, cs). (l, map2 (\<lambda>c v. if c = CStr label then astype_str to_str v else v)
                                       (columns df) cs))
                   (rows df)\<rparr>"

text \<open>\<open>df[label] = ""\<close> for a label that is no column: a new last column.\<close>

definition add_column :: "string \<Rightarrow> cell \<Rightarrow> frame \<Rightarrow> frame" where
  "add_column label v df =
     df\<lparr>columns := columns df @ [CStr label],
        rows := map (\<lambda>(l, cs). (l, cs @ [v])) (rows df)\<rparr>"

definition tail :: "nat \<Rightarrow> frame \<Rightarrow> frame" where
  "tail n df = df\<lparr>rows := drop (length (rows df) - n) (rows df)\<rparr>"

definition head :: "nat \<Rightarrow> frame \<Rightarrow> frame" where
  "head n df = df\<lparr>rows := take n (rows df)\<rparr>"

section \<open>What a handler returns\<close>

text \<open>
  Every handler returns a \<open>str\<close>. It is either a text the handler composes itself, or
  the text a serialiser of the libraries produces; the serialisers are not part of the
  repository, and a serialised text is represented by the value that was serialised:
  \<open>json.dumps(v, indent=2)\<close>, \<open>to_json(orient="records")\<close> (one object per row, keyed
  by column label, the index left out) and \<open>to_json(orient="index")\<close> (one object per
  row, under the row's index label).
\<close>

type_synonym row_object = "(cell \<times> cell) list"

datatype response =
    Text string
  | Json_dumps pyval
  | Json_records "row_object list"
  | Json_index "(cell \<times> row_object) list"

definition row_object :: "frame \<Rightarrow> cell \<times> cell list \<Rightarrow> row_object" where
  "row_object df r = zip (columns df) (snd r)"

text \<open>pandas refuses to serialise a table with repeated labels.\<close>

definition to_json_records :: "frame \<Rightarrow> exception + response" where
  "to_json_records df =
     (if distinct (columns df)
      then Inr (Json_records (map (row_object df) (rows df)))
      else Inl (ValueError (''DataFrame columns must be unique for orient='' @ quoted ''records'' @ ''.'')))"

definition to_json_index :: "frame \<Rightarrow> exception + response" where
  "to_json_index df =
     (if \<not> distinct (map fst (rows df))
      then Inl (ValueError (''DataFrame index must be unique for orient='' @ quoted ''index'' @ ''.''))
      else if \<not> distinct (columns df)
      then Inl (ValueError (''DataFrame columns must be unique for orient='' @ quoted ''index'' @ ''.''))
      else Inr (Json_index (map (\<lambda>r. (fst r, row_object df r)) (rows df))))"

section \<open>The provider\<close>

text \<open>
  The yfinance calls of the handlers. Each can raise: constructing the ticker (yfinance
  resolves a symbol of ISIN shape by a network lookup in the constructor) as well as
  every data property. \<open>'tk\<close> is the ticker object. The record also
  carries \<open>to_str\<close>, the text pandas gives a value in \<open>astype(str)\<close>.
\<close>

record 'tk provider =
  Ticker :: "string \<Rightarrow> exception + 'tk"
  info :: "'tk \<Rightarrow> exception + pydict"
  history :: "'tk \<Rightarrow> string \<Rightarrow> string \<Rightarrow> exception + frame"
  news :: "'tk \<Rightarrow> exception + pyval list option"
  financials :: "'tk \<Rightarrow> exception + frame"
  balance_sheet :: "'tk \<Rightarrow> exception + frame"
  cashflow :: "'tk \<Rightarrow> exception + frame"
  recommendations :: "'tk \<Rightarrow> exception + frame option"
  to_str :: "cell \<Rightarrow> string"

section \<open>The handlers\<close>

text \<open>
  Each handler is a \<open>try\<close> block whose \<open>except Exception as e\<close> returns
  \<open>f"Error: {str(e)}"\<close>. The block is the \<open>_body\<close> function, with \<open>Inl\<close> for an
  exception raised in it; \<open>catch\<close> is the \<open>except\<close> clause.
\<close>

definition error_text :: "exception \<Rightarrow> string" where
  "error_text e = ''Error: '' @ str_exception e"

definition catch :: "exception + response \<Rightarrow> response" where
  "catch r = (case r of Inl e \<Rightarrow> Text (error_text e) | Inr v \<Rightarrow> v)"

subsection \<open>get_stock_info\<close>

definition stock_info_dict :: "string \<Rightarrow> pydict \<Rightarrow> pyval \<Rightarrow> pydict" where
  "stock_info_dict symbol i summary =
     [(''symbol'', PStr (upper symbol)),
      (''name'', dict_get i ''longName''),
      (''price'', py_or (dict_get i ''currentPrice'') (dict_get i ''regularMarketPrice'')),
      (''currency'', dict_get i ''currency''),
      (''marketCap'', dict_get i ''marketCap''),
      (''peRatio'', dict_get i ''trailingPE''),
      (''52WeekHigh'', dict_get i ''fiftyTwoWeekHigh''),
      (''52WeekLow'', dict_get i ''fiftyTwoWeekLow''),
      (''volume'', dict_get i ''volume''),
      (''avgVolume'', dict_get i ''averageVolume''),
      (''dividendYield'', dict_get i ''dividendYield''),
      (''sector'', dict_get i ''sector''),
      (''industry'', dict_get i ''industry''),
      (''summary'', summary)]"

definition get_stock_info_body :: "'tk provider \<Rightarrow> string \<Rightarrow> exception + response" where
  "get_stock_info_body yf symbol =
     (case Ticker yf symbol of
        Inl e \<Rightarrow> Inl e
      | Inr ticker \<Rightarrow>
         (case info yf ticker of
            Inl e \<Rightarrow> Inl e
          | Inr i \<Rightarrow>
             (case py_slice_to 500 (dict_get_default i ''longBusinessSummary'' (PStr [])) of
                Inl e \<Rightarrow> Inl e
              | Inr summary \<Rightarrow> Inr (Json_dumps (PDict (stock_info_dict symbol i summary))))))"

definition get_stock_info :: "'tk provider \<Rightarrow> string \<Rightarrow> response" where
  "get_stock_info yf symbol = catch (get_stock_info_body yf symbol)"

subsection \<open>get_historical_prices\<close>

definition get_historical_prices_body ::
  "'tk provider \<Rightarrow> string \<Rightarrow> string \<Rightarrow> string \<Rightarrow> exception + response" where
  "get_historical_prices_body yf symbol period interval =
     (case Ticker yf symbol of
        Inl e \<Rightarrow> Inl e
      | Inr ticker \<Rightarrow>
         (case history yf ticker period interval of
            Inl e \<Rightarrow> Inl e
          | Inr hist \<Rightarrow>
             if df_empty hist then Inr (Text (''No data found for '' @ symbol))
             else
               (case reset_index hist of
                  Inl e \<Rightarrow> Inl e
                | Inr hist1 \<Rightarrow>
                   (case getitem hist1 ''Date'' of
                      Inl e \<Rightarrow> Inl e
                    | Inr dates \<Rightarrow>
                       to_json_records (tail 20 (column_astype_str (to_str yf) ''Date'' hist1))))))"

definition get_historical_prices ::
  "'tk provider \<Rightarrow> string \<Rightarrow> string \<Rightarrow> string \<Rightarrow> response" where
  "get_historical_prices yf symbol period interval =
     catch (get_historical_prices_body yf symbol period interval)"

subsection \<open>get_stock_news\<close>

text \<open>
  One round of the loop: the three entries are evaluated in the order written. In the
  first, \<open>item.get("title", "No title")\<close> is an argument of the \<open>get\<close> on the content;
  it cannot raise once \<open>item.get("content", {})\<close> has returned, so whether the content
  has a \<open>get\<close> is decided by the call that follows it.
\<close>

definition article :: "pyval \<Rightarrow> exception + pyval" where
  "article item =
     (case py_get item ''content'' (PDict []) of
        Inl e \<Rightarrow> Inl e
      | Inr c1 \<Rightarrow>
     (case py_get item ''title'' (PStr ''No title'') of
        Inl e \<Rightarrow> Inl e
      | Inr legacy \<Rightarrow>
     (case py_get c1 ''title'' legacy of
        Inl e \<Rightarrow> Inl e
      | Inr title \<Rightarrow>
     (case py_get item ''content'' (PDict []) of
        Inl e \<Rightarrow> Inl e
      | Inr c2 \<Rightarrow>
     (case py_get c2 ''provider'' (PDict []) of
        Inl e \<Rightarrow> Inl e
      | Inr p \<Rightarrow>
     (case py_get p ''displayName'' (PStr ''Unknown'') of
        Inl e \<Rightarrow> Inl e
      | Inr publisher \<Rightarrow>
     (case py_get item ''content'' (PDict []) of
        Inl e \<Rightarrow> Inl e
      | Inr c3 \<Rightarrow>
     (case py_get c3 ''canonicalUrl'' (PDict []) of
        Inl e \<Rightarrow> Inl e
      | Inr u \<Rightarrow>
     (case py_get u ''url'' (PStr []) of
        Inl e \<Rightarrow> Inl e
      | Inr link \<Rightarrow>
          Inr (PDict [(''title'', title), (''publisher'', publisher), (''link'', link)]))))))))))"

text \<open>The loop \<open>for item in news[:5]: articles.append(...)\<close>, started with \<open>articles\<close>.\<close>

fun collect :: "pyval list \<Rightarrow> pyval list \<Rightarrow> exception + pyval list" where
  "collect articles [] = Inr articles"
| "collect articles (item # items) =
     (case article item of
        Inl e \<Rightarrow> Inl e
      | Inr a \<Rightarrow> collect (articles @ [a]) items)"

definition get_stock_news_body :: "'tk provider \<Rightarrow> string \<Rightarrow> exception + response" where
  "get_stock_news_body yf symbol =
     (case Ticker yf symbol of
        Inl e \<Rightarrow> Inl e
      | Inr ticker \<Rightarrow>
         (case news yf ticker of
            Inl e \<Rightarrow> Inl e
          | Inr n \<Rightarrow>
             (case n of
                None \<Rightarrow> Inr (Text (''No news found for '' @ symbol))
              | Some items \<Rightarrow>
                 if items = [] then Inr (Text (''No news found for '' @ symbol))
                 else
                   (case collect [] (take 5 items) of
                      Inl e \<Rightarrow> Inl e
                    | Inr articles \<Rightarrow> Inr (Json_dumps (PList articles))))))"

definition get_stock_news :: "'tk provider \<Rightarrow> string \<Rightarrow> response" where
  "get_stock_news yf symbol = catch (get_stock_news_body yf symbol)"

subsection \<open>get_financial_statement\<close>

text \<open>
  \<open>statement\<close> is the part of the block after the choice of the table, which the three
  valid statement types share.
\<close>

definition statement :: "frame \<Rightarrow> 'tk provider \<Rightarrow> string \<Rightarrow> string \<Rightarrow> exception + response" where
  "statement data yf symbol statement_type =
     (if df_empty data then Inr (Text (''No '' @ statement_type @ '' data for '' @ symbol))
      else to_json_index (head 10 (data\<lparr>columns := map (astype_str (to_str yf)) (columns data)\<rparr>)))"

definition get_financial_statement_body ::
  "'tk provider \<Rightarrow> string \<Rightarrow> string \<Rightarrow> exception + response" where
  "get_financial_statement_body yf symbol statement_type =
     (case Ticker yf symbol of
        Inl e \<Rightarrow> Inl e
      | Inr ticker \<Rightarrow>
         if statement_type = ''income'' then
           (case financials yf ticker of
              Inl e \<Rightarrow> Inl e
            | Inr data \<Rightarrow> statement data yf symbol statement_type)
         else if statement_type = ''balance'' then
           (case balance_sheet yf ticker of
              Inl e \<Rightarrow> Inl e
            | Inr data \<Rightarrow> statement data yf symbol statement_type)
         else if statement_type = ''cashflow'' then
           (case cashflow yf ticker of
              Inl e \<Rightarrow> Inl e
            | Inr data \<Rightarrow> statement data yf symbol statement_type)
         else Inr (Text ''Invalid statement_type. Use: income, balance, or cashflow''))"

definition get_financial_statement :: "'tk provider \<Rightarrow> string \<Rightarrow> string \<Rightarrow> response" where
  "get_financial_statement yf symbol statement_type =
     catch (get_financial_statement_body yf symbol statement_type)"

subsection \<open>get_recommendations\<close>

definition set_date :: "(cell \<Rightarrow> string) \<Rightarrow> frame \<Rightarrow> frame" where
  "set_date f recs =
     (if CStr ''Date'' \<in> set (columns recs)
      then column_astype_str f ''Date'' recs
      else add_column ''Date'' (CStr []) recs)"

definition get_recommendations_body :: "'tk provider \<Rightarrow> string \<Rightarrow> exception + response" where
  "get_recommendations_body yf symbol =
     (case Ticker yf symbol of
        Inl e \<Rightarrow> Inl e
      | Inr ticker \<Rightarrow>
         (case recommendations yf ticker of
            Inl e \<Rightarrow> Inl e
          | Inr None \<Rightarrow> Inr (Text (''No recommendations for '' @ symbol))
          | Inr (Some recs) \<Rightarrow>
             if df_empty recs then Inr (Text (''No recommendations for '' @ symbol))
             else
               (case reset_index recs of
                  Inl e \<Rightarrow> Inl e
                | Inr recs1 \<Rightarrow> to_json_records (tail 10 (set_date (to_str yf) recs1)))))"

definition get_recommendations :: "'tk provider \<Rightarrow> string \<Rightarrow> response" where
  "get_recommendations yf symbol = catch (get_recommendations_body yf symbol)"

section \<open>Descriptions of the results\<close>

subsection \<open>News entries\<close>

text \<open>
  The entry of a news item in the words of the specification: each of the three values
  is looked up along a path of keys, the modern shape under \<open>content\<close> first; the title
  alone has the legacy flat \<open>title\<close> for a second source; a placeholder stands in when
  the path leads nowhere. \<open>nested\<close> follows a path through dictionaries.
\<close>

fun nested :: "pyval \<Rightarrow> string list \<Rightarrow> pyval option" where
  "nested v [] = Some v"
| "nested (PDict d) (k # ks) = (case map_of d k of None \<Rightarrow> None | Some v \<Rightarrow> nested v ks)"
| "nested v (k # ks) = None"

definition is_dict :: "pyval \<Rightarrow> bool" where
  "is_dict v = (case v of PDict d \<Rightarrow> True | _ \<Rightarrow> False)"

definition is_str :: "pyval \<Rightarrow> bool" where
  "is_str v = (case v of PStr s \<Rightarrow> True | _ \<Rightarrow> False)"

definition dict_or_absent :: "pyval \<Rightarrow> string list \<Rightarrow> bool" where
  "dict_or_absent item path = (case nested item path of None \<Rightarrow> True | Some v \<Rightarrow> is_dict v)"

definition str_or_absent :: "pyval \<Rightarrow> string list \<Rightarrow> bool" where
  "str_or_absent item path = (case nested item path of None \<Rightarrow> True | Some v \<Rightarrow> is_str v)"

definition news_title :: "pyval \<Rightarrow> pyval" where
  "news_title item =
     (case nested item [''content'', ''title''] of
        Some v \<Rightarrow> v
      | None \<Rightarrow> (case nested item [''title''] of Some v \<Rightarrow> v | None \<Rightarrow> PStr ''No title''))"

definition news_publisher :: "pyval \<Rightarrow> pyval" where
  "news_publisher item =
     (case nested item [''content'', ''provider'', ''displayName''] of
        Some v \<Rightarrow> v
      | None \<Rightarrow> PStr ''Unknown'')"

definition news_link :: "pyval \<Rightarrow> pyval" where
  "news_link item =
     (case nested item [''content'', ''canonicalUrl'', ''url''] of
        Some v \<Rightarrow> v
      | None \<Rightarrow> PStr [])"

definition news_entry :: "pyval \<Rightarrow> pyval" where
  "news_entry item =
     PDict [(''title'', news_title item), (''publisher'', news_publisher item),
            (''link'', news_link item)]"

text \<open>
  An item the extraction can walk through: a dictionary whose \<open>content\<close>, and under it
  \<open>provider\<close> and \<open>canonicalUrl\<close>, are dictionaries wherever they are present.
\<close>

definition well_shaped :: "pyval \<Rightarrow> bool" where
  "well_shaped item =
     (is_dict item \<and> dict_or_absent item [''content''] \<and>
      dict_or_absent item [''content'', ''provider''] \<and>
      dict_or_absent item [''content'', ''canonicalUrl''])"

subsection \<open>Row objects\<close>

text \<open>
  A table as the provider builds it: the column labels are distinct, the label under
  which \<open>reset_index\<close> inserts the index is not one of them, and every row has one cell
  per column.
\<close>

definition provider_table :: "frame \<Rightarrow> bool" where
  "provider_table df =
     (distinct (columns df) \<and> CStr (reset_label df) \<notin> set (columns df) \<and>
      list_all (\<lambda>r. length (snd r) = length (columns df)) (rows df))"

text \<open>
  The object of a row in the serialised array: the row's index label first, under the
  index's label, then the cells under their column labels; the value under \<open>Date\<close> as
  text. A recommendations table without a \<open>Date\<close> gets the entry \<open>Date: ""\<close> last.
\<close>

definition with_index :: "frame \<Rightarrow> cell \<times> cell list \<Rightarrow> row_object" where
  "with_index df r = zip (CStr (reset_label df) # columns df) (fst r # snd r)"

definition date_as_text :: "(cell \<Rightarrow> string) \<Rightarrow> row_object \<Rightarrow> row_object" where
  "date_as_text f obj = map (\<lambda>(c, v). (c, if c = CStr ''Date'' then astype_str f v else v)) obj"

definition bar_object :: "(cell \<Rightarrow> string) \<Rightarrow> frame \<Rightarrow> cell \<times> cell list \<Rightarrow> row_object" where
  "bar_object f df r = date_as_text f (with_index df r)"

definition recommendation_object :: "(cell \<Rightarrow> string) \<Rightarrow> frame \<Rightarrow> cell \<times> cell list \<Rightarrow> row_object" where
  "recommendation_object f df r =
     (if CStr ''Date'' \<in> set (CStr (reset_label df) # columns df)
      then date_as_text f (with_index df r)
      else with_index df r @ [(CStr ''Date'', CStr [])])"

section \<open>Example providers\<close>

text \<open>
  \<open>unreachable\<close>: no call gets through. \<open>serving\<close>: the ticker is constructed, every
  data property still fails; the examples below replace the properties they need.
\<close>

definition unreachable :: "unit provider" where
  "unreachable =
     \<lparr>Ticker = (\<lambda>s. Inl (LibraryError ''Connection refused'')),
      info = (\<lambda>t. Inl (LibraryError ''Connection refused'')),
      history = (\<lambda>t p i. Inl (LibraryError ''Connection refused'')),
      news = (\<lambda>t. Inl (LibraryError ''Connection refused'')),
      financials = (\<lambda>t. Inl (LibraryError ''Connection refused'')),
      balance_sheet = (\<lambda>t. Inl (LibraryError ''Connection refused'')),
      cashflow = (\<lambda>t. Inl (LibraryError ''Connection refused'')),
      recommendations = (\<lambda>t. Inl (LibraryError ''Connection refused'')),
      to_str = (\<lambda>c. ''2024-01-02'')\<rparr>"

definition serving :: "unit provider" where
  "serving = unreachable\<lparr>Ticker := (\<lambda>s. Inr ())\<rparr>"

definition no_bars :: frame where
  "no_bars = \<lparr>index_name = Some ''Date'',
               columns = [CStr ''Open'', CStr ''Close'', CStr ''Volume''],
               rows = []\<rparr>"

definition quote_info :: pydict where
  "quote_info =
     [(''longName'', PStr ''Apple Inc.''),
      (''currentPrice'', PInt 0),
      (''regularMarketPrice'', PFloat (1893 / 10)),
      (''currency'', PStr ''USD''),
      (''sector'', PStr ''Technology''),
      (''longBusinessSummary'', PStr ''Apple Inc. designs, manufactures, and markets smartphones.'')]"

definition fund_info :: pydict where
  "fund_info =
     [(''longName'', PStr ''SPDR S&P 500 ETF Trust''),
      (''regularMarketPrice'', PFloat (5021 / 10)),
      (''currency'', PStr ''USD''),
      (''longBusinessSummary'', PNone)]"

definition quote_provider :: "unit provider" where
  "quote_provider = serving\<lparr>info := (\<lambda>t. Inr quote_info)\<rparr>"

definition fund_provider :: "unit provider" where
  "fund_provider = serving\<lparr>info := (\<lambda>t. Inr fund_info)\<rparr>"

definition headlines :: "pyval list" where
  "headlines =
     [PDict [(''content'',
        PDict [(''title'', PNone),
               (''provider'', PDict [(''displayName'', PStr ''Reuters'')]),
               (''canonicalUrl'', PDict [(''url'', PStr ''https://example.com/markets/1'')])])],
      PDict [(''title'', PStr ''Shares rally''),
             (''publisher'', PStr ''Bloomberg''),
             (''link'', PStr ''https://example.com/markets/2'')]]"

definition six_items :: "pyval list" where
  "six_items =
     [PDict [(''content'',
        PDict [(''title'', PStr ''Earnings beat''),
               (''provider'', PDict [(''displayName'', PStr ''Reuters'')]),
               (''canonicalUrl'', PDict [(''url'', PStr ''https://example.com/markets/1'')])])],
      PDict [(''title'', PStr ''Shares rally'')],
      PDict [],
      PDict [(''content'', PDict [(''title'', PStr ''Outlook'')])],
      PDict [(''content'', PDict [(''provider'', PDict [])])],
      PDict [(''content'', PNone)]]"

definition intraday_bars :: frame where
  "intraday_bars =
     \<lparr>index_name = Some ''Datetime'',
      columns = [CStr ''Open'', CStr ''Close'', CStr ''Volume''],
      rows = [(CTime 1704205800, [CFloat (1871 / 10), CFloat (1872 / 10), CInt 120500]),
              (CTime 1704205860, [CFloat (1872 / 10), CFloat (1870 / 10), CInt 98300])]\<rparr>"


definition no_bars_provider :: "unit provider" where
  "no_bars_provider = serving\<lparr>history := (\<lambda>t p i. Inr no_bars)\<rparr>"

definition intraday_provider :: "unit provider" where
  "intraday_provider = serving\<lparr>history := (\<lambda>t p i. Inr intraday_bars)\<rparr>"

definition headlines_provider :: "unit provider" where
  "headlines_provider = serving\<lparr>news := (\<lambda>t. Inr (Some headlines))\<rparr>"

definition six_items_provider :: "unit provider" where
  "six_items_provider = serving\<lparr>news := (\<lambda>t. Inr (Some six_items))\<rparr>"



section \<open>Errors\<close>



text \<open>
  The provider's calls are among the steps of the blocks: an exception of the
  constructor surfaces in all five handlers, one of a data property in its handler.
\<close>

lemma ticker_exception_surfaces:
  assumes "Ticker yf symbol = Inl e"
  shows "get_stock_info yf symbol = Text (error_text e)"
    and "get_historical_prices yf symbol period interval = Text (error_text e)"
    and "get_stock_news yf symbol = Text (error_text e)"
    and "get_financial_statement yf symbol statement_type = Text (error_text e)"
    and "get_recommendations yf symbol = Text (error_text e)"
  using assms
  by (simp_all add: get_stock_info_def get_stock_info_body_def get_historical_prices_def
      get_historical_prices_body_def get_stock_news_def get_stock_news_body_def
      get_financial_statement_def get_financial_statement_body_def get_recommendations_def
      get_recommendations_body_def catch_def)

lemma property_exception_surfaces:
  assumes "Ticker yf symbol = Inr ticker"
  shows "info yf ticker = Inl e \<Longrightarrow> get_stock_info yf symbol = Text (error_text e)"
    and "history yf ticker period interval = Inl e
           \<Longrightarrow> get_historical_prices yf symbol period interval = Text (error_text e)"
    and "news yf ticker = Inl e \<Longrightarrow> get_stock_news yf symbol = Text (error_text e)"
    and "financials yf ticker = Inl e
           \<Longrightarrow> get_financial_statement yf symbol ''income'' = Text (error_text e)"
    and "balance_sheet yf ticker = Inl e
           \<Longrightarrow> get_financial_statement yf symbol ''balance'' = Text (error_text e)"
    and "cashflow yf ticker = Inl e
           \<Longrightarrow> get_financial_statement yf symbol ''cashflow'' = Text (error_text e)"
    and "recommendations yf ticker = Inl e \<Longrightarrow> get_recommendations yf symbol = Text (error_text e)"
  using assms
  by (simp_all add: get_stock_info_def get_stock_info_body_def get_historical_prices_def
      get_historical_prices_body_def get_stock_news_def get_stock_news_body_def
      get_financial_statement_def get_financial_statement_body_def get_recommendations_def
      get_recommendations_body_def catch_def)

text \<open>
  C8. When the provider returns an empty history table, \<open>get_historical_prices\<close> returns
  the text \<open>No data found for \<close> followed by the symbol. The \<open>try\<close> block returns it
  normally, and it is not one of the \<open>Error: \<close> texts.
\<close>

theorem empty_history_not_found:
  assumes "Ticker yf symbol = Inr ticker"
    and "history yf ticker period interval = Inr hist"
    and "df_empty hist"
  shows "get_historical_prices_body yf symbol period interval
           = Inr (Text (''No data found for '' @ symbol)) \<and>
         get_historical_prices yf symbol period interval
           = Text (''No data found for '' @ symbol) \<and>
         get_historical_prices yf symbol period interval \<noteq> Text (''Error: '' @ msg)"
  using assms
  by (simp add: get_historical_prices_def get_historical_prices_body_def catch_def)

theorem empty_history_not_found_witness:
  "df_empty no_bars \<and>
   get_historical_prices no_bars_provider ''XXXX'' ''1mo'' ''1d''
     = Text ''No data found for XXXX''"
proof -
  let ?yf = "no_bars_provider"
  have t: "Ticker ?yf ''XXXX'' = Inr ()"
    by (simp add: no_bars_provider_def serving_def unreachable_def)
  have h: "history ?yf () ''1mo'' ''1d'' = Inr no_bars"
    by (simp add: no_bars_provider_def)
  have e: "df_empty no_bars"
    by (simp add: df_empty_def no_bars_def)
  show ?thesis
    using empty_history_not_found [OF t h e] e by simp
qed

text \<open>
  C2, as stated, fails: the ticker is constructed before the statement type is looked
  at, inside the \<open>try\<close> block, so a symbol for which the construction raises gets the
  error text, whatever the statement type.
\<close>

theorem invalid_statement_type_counterexample:
  "get_financial_statement unreachable ''US0378331005'' ''quarterly''
     = Text ''Error: Connection refused'' \<and>
   get_financial_statement unreachable ''US0378331005'' ''quarterly''
     \<noteq> Text ''Invalid statement_type. Use: income, balance, or cashflow''"
  by (simp add: get_financial_statement_def get_financial_statement_body_def catch_def
      error_text_def unreachable_def)

text \<open>
  C2, amended. For every symbol whose ticker is constructed without an exception, and
  every statement type other than \<open>income\<close>, \<open>balance\<close> and \<open>cashflow\<close>,
  \<open>get_financial_statement\<close> returns exactly the usage text; the \<open>try\<close> block returns it
  normally, whatever the provider's statement tables would do.
\<close>

theorem invalid_statement_type:
  assumes "Ticker yf symbol = Inr ticker"
    and "statement_type \<notin> {''income'', ''balance'', ''cashflow''}"
  shows "get_financial_statement_body yf symbol statement_type
           = Inr (Text ''Invalid statement_type. Use: income, balance, or cashflow'') \<and>
         get_financial_statement yf symbol statement_type
           = Text ''Invalid statement_type. Use: income, balance, or cashflow''"
  using assms
  by (simp add: get_financial_statement_def get_financial_statement_body_def catch_def)

theorem invalid_statement_type_witness:
  "''quarterly'' \<notin> {''income'', ''balance'', ''cashflow''} \<and>
   get_financial_statement serving ''AAPL'' ''quarterly''
     = Text ''Invalid statement_type. Use: income, balance, or cashflow''"
proof -
  have t: "Ticker serving ''AAPL'' = Inr ()"
    by (simp add: serving_def unreachable_def)
  have n: "''quarterly'' \<notin> {''income'', ''balance'', ''cashflow''}"
    by simp
  show ?thesis
    using invalid_statement_type [OF t n] n by simp
qed

section \<open>The quote summary\<close>

lemma map_of_stock_info_dict:
  "map_of (stock_info_dict symbol i summary) ''symbol'' = Some (PStr (upper symbol))"
  "map_of (stock_info_dict symbol i summary) ''name'' = Some (dict_get i ''longName'')"
  "map_of (stock_info_dict symbol i summary) ''price''
     = Some (py_or (dict_get i ''currentPrice'') (dict_get i ''regularMarketPrice''))"
  "map_of (stock_info_dict symbol i summary) ''currency'' = Some (dict_get i ''currency'')"
  "map_of (stock_info_dict symbol i summary) ''marketCap'' = Some (dict_get i ''marketCap'')"
  "map_of (stock_info_dict symbol i summary) ''peRatio'' = Some (dict_get i ''trailingPE'')"
  "map_of (stock_info_dict symbol i summary) ''52WeekHigh'' = Some (dict_get i ''fiftyTwoWeekHigh'')"
  "map_of (stock_info_dict symbol i summary) ''52WeekLow'' = Some (dict_get i ''fiftyTwoWeekLow'')"
  "map_of (stock_info_dict symbol i summary) ''volume'' = Some (dict_get i ''volume'')"
  "map_of (stock_info_dict symbol i summary) ''avgVolume'' = Some (dict_get i ''averageVolume'')"
  "map_of (stock_info_dict symbol i summary) ''dividendYield'' = Some (dict_get i ''dividendYield'')"
  "map_of (stock_info_dict symbol i summary) ''sector'' = Some (dict_get i ''sector'')"
  "map_of (stock_info_dict symbol i summary) ''industry'' = Some (dict_get i ''industry'')"
  "map_of (stock_info_dict symbol i summary) ''summary'' = Some summary"
  by (simp_all add: stock_info_dict_def)

lemma fst_stock_info_dict:
  "map fst (stock_info_dict symbol i summary) =
     [''symbol'', ''name'', ''price'', ''currency'', ''marketCap'', ''peRatio'', ''52WeekHigh'',
      ''52WeekLow'', ''volume'', ''avgVolume'', ''dividendYield'', ''sector'', ''industry'',
      ''summary'']"
  by (simp add: stock_info_dict_def)

text \<open>What a successful call has gone through.\<close>

lemma get_stock_info_Json:
  assumes "get_stock_info yf symbol = Json_dumps v"
  shows "\<exists>ticker i summary.
           Ticker yf symbol = Inr ticker \<and> info yf ticker = Inr i \<and>
           py_slice_to 500 (dict_get_default i ''longBusinessSummary'' (PStr [])) = Inr summary \<and>
           v = PDict (stock_info_dict symbol i summary)"
  using assms
  by (auto simp add: get_stock_info_def get_stock_info_body_def catch_def split: sum.splits)

text \<open>
  The summary of a successful call: the empty string when the provider has no
  \<open>longBusinessSummary\<close>, the first 500 characters when it is a string.
\<close>

lemma summary_absent:
  assumes "Ticker yf symbol = Inr ticker" and "info yf ticker = Inr i"
    and "map_of i ''longBusinessSummary'' = None"
  shows "get_stock_info yf symbol = Json_dumps (PDict (stock_info_dict symbol i (PStr [])))"
  using assms
  by (simp add: get_stock_info_def get_stock_info_body_def catch_def dict_get_default_def)

lemma summary_string:
  assumes "Ticker yf symbol = Inr ticker" and "info yf ticker = Inr i"
    and "map_of i ''longBusinessSummary'' = Some (PStr s)"
  shows "get_stock_info yf symbol = Json_dumps (PDict (stock_info_dict symbol i (PStr (take 500 s))))"
  using assms
  by (simp add: get_stock_info_def get_stock_info_body_def catch_def dict_get_default_def)

lemma upper_aapl: "upper ''aapl'' = ''AAPL''"
  by code_simp

lemma quote_provider_result:
  "get_stock_info quote_provider ''aapl'' =
     Json_dumps (PDict (stock_info_dict ''aapl'' quote_info
       (PStr ''Apple Inc. designs, manufactures, and markets smartphones.'')))"
  by (simp add: get_stock_info_def get_stock_info_body_def catch_def
      quote_provider_def serving_def unreachable_def quote_info_def dict_get_default_def)

text \<open>
  C5. The provider's lookup succeeds and the mapping carries a null
  \<open>longBusinessSummary\<close>: slicing \<open>None\<close> raises, and the handler returns the error text
  in place of the JSON object with the upper-cased symbol.
\<close>

theorem stock_info_null_summary:
  "info fund_provider () = Inr fund_info \<and>
   get_stock_info fund_provider ''spy''
     = Text (''Error: '' @ quoted ''NoneType'' @ '' object is not subscriptable'')"
  by (simp add: get_stock_info_def get_stock_info_body_def catch_def error_text_def
      fund_provider_def serving_def unreachable_def fund_info_def dict_get_default_def)

text \<open>
  C6. The default \<open>""\<close> of \<open>info.get("longBusinessSummary", "")\<close> stands in for an
  absent key only. Where the key is present with the value \<open>None\<close> the slice raises
  \<open>TypeError\<close>, and no output with the summary \<open>""\<close> is produced.
\<close>

theorem summary_null_raises:
  "map_of fund_info ''longBusinessSummary'' = Some PNone \<and>
   get_stock_info_body fund_provider ''spy''
     = Inl (TypeError (quoted ''NoneType'' @ '' object is not subscriptable'')) \<and>
   get_stock_info fund_provider ''spy''
     \<noteq> Json_dumps (PDict (stock_info_dict ''spy'' fund_info (PStr [])))"
  by (simp add: get_stock_info_def get_stock_info_body_def catch_def error_text_def
      fund_provider_def serving_def unreachable_def fund_info_def dict_get_default_def)

text \<open>
  C7, as stated, fails: the object of a successful call has fourteen fields, not
  seventeen.
\<close>

theorem seventeen_fields_counterexample:
  "get_stock_info quote_provider ''aapl'' =
     Json_dumps (PDict
       [(''symbol'', PStr ''AAPL''),
        (''name'', PStr ''Apple Inc.''),
        (''price'', PFloat (1893 / 10)),
        (''currency'', PStr ''USD''),
        (''marketCap'', PNone),
        (''peRatio'', PNone),
        (''52WeekHigh'', PNone),
        (''52WeekLow'', PNone),
        (''volume'', PNone),
        (''avgVolume'', PNone),
        (''dividendYield'', PNone),
        (''sector'', PStr ''Technology''),
        (''industry'', PNone),
        (''summary'', PStr ''Apple Inc. designs, manufactures, and markets smartphones.'')])"
  by (simp add: quote_provider_result stock_info_dict_def quote_info_def dict_get_def py_or_def
      upper_aapl)

text \<open>
  C7, amended. The object of every successful call has exactly fourteen fields, in this
  order: \<open>symbol\<close>, the input symbol upper-cased; eleven fields that are the provider's
  value under the corresponding key, null when the provider omits it; \<open>price\<close>, null
  when the provider omits both price keys; and \<open>summary\<close>, the empty string when the
  provider omits \<open>longBusinessSummary\<close>.
\<close>

theorem stock_info_fields:
  assumes "get_stock_info yf symbol = Json_dumps v"
  shows "\<exists>ticker i d.
           Ticker yf symbol = Inr ticker \<and> info yf ticker = Inr i \<and> v = PDict d \<and>
           map fst d =
             [''symbol'', ''name'', ''price'', ''currency'', ''marketCap'', ''peRatio'',
              ''52WeekHigh'', ''52WeekLow'', ''volume'', ''avgVolume'', ''dividendYield'',
              ''sector'', ''industry'', ''summary''] \<and>
           length d = 14 \<and>
           map_of d ''symbol'' = Some (PStr (upper symbol)) \<and>
           (\<forall>(out, src) \<in> set
               [(''name'', ''longName''), (''currency'', ''currency''),
                (''marketCap'', ''marketCap''), (''peRatio'', ''trailingPE''),
                (''52WeekHigh'', ''fiftyTwoWeekHigh''), (''52WeekLow'', ''fiftyTwoWeekLow''),
                (''volume'', ''volume''), (''avgVolume'', ''averageVolume''),
                (''dividendYield'', ''dividendYield''), (''sector'', ''sector''),
                (''industry'', ''industry'')].
              map_of d out = Some (case map_of i src of None \<Rightarrow> PNone | Some x \<Rightarrow> x)) \<and>
           (map_of i ''currentPrice'' = None \<and> map_of i ''regularMarketPrice'' = None
              \<longrightarrow> map_of d ''price'' = Some PNone) \<and>
           (map_of i ''longBusinessSummary'' = None \<longrightarrow> map_of d ''summary'' = Some (PStr []))"
proof -
  from get_stock_info_Json [OF assms] obtain ticker i summary where
    t: "Ticker yf symbol = Inr ticker" and i: "info yf ticker = Inr i" and
    s: "py_slice_to 500 (dict_get_default i ''longBusinessSummary'' (PStr [])) = Inr summary" and
    v: "v = PDict (stock_info_dict symbol i summary)"
    by blast
  let ?d = "stock_info_dict symbol i summary"
  have len: "length ?d = 14"
    by (simp add: stock_info_dict_def)
  have plain: "\<forall>(out, src) \<in> set
               [(''name'', ''longName''), (''currency'', ''currency''),
                (''marketCap'', ''marketCap''), (''peRatio'', ''trailingPE''),
                (''52WeekHigh'', ''fiftyTwoWeekHigh''), (''52WeekLow'', ''fiftyTwoWeekLow''),
                (''volume'', ''volume''), (''avgVolume'', ''averageVolume''),
                (''dividendYield'', ''dividendYield''), (''sector'', ''sector''),
                (''industry'', ''industry'')].
              map_of ?d out = Some (case map_of i src of None \<Rightarrow> PNone | Some x \<Rightarrow> x)"
    by (simp add: map_of_stock_info_dict dict_get_def)
  have price: "map_of i ''currentPrice'' = None \<and> map_of i ''regularMarketPrice'' = None
              \<longrightarrow> map_of ?d ''price'' = Some PNone"
    by (simp add: map_of_stock_info_dict dict_get_def py_or_def)
  have summ: "map_of i ''longBusinessSummary'' = None \<longrightarrow> map_of ?d ''summary'' = Some (PStr [])"
    using s by (auto simp add: map_of_stock_info_dict dict_get_default_def)
  show ?thesis
    apply (rule exI [of _ ticker], rule exI [of _ i], rule exI [of _ ?d])
    apply (intro conjI)
            apply (rule t)
           apply (rule i)
          apply (rule v)
         apply (rule fst_stock_info_dict)
        apply (rule len)
       apply (rule map_of_stock_info_dict(1))
      apply (rule plain)
     apply (rule price)
    apply (rule summ)
    done
qed

theorem stock_info_fields_witness:
  "\<exists>d. get_stock_info quote_provider ''aapl'' = Json_dumps (PDict d) \<and>
       length d = 14 \<and>
       map_of d ''symbol'' = Some (PStr ''AAPL'') \<and>
       map_of d ''marketCap'' = Some PNone"
proof -
  from stock_info_fields [OF quote_provider_result] obtain ticker i d where
    i: "info quote_provider ticker = Inr i" and
    d: "PDict (stock_info_dict ''aapl'' quote_info
          (PStr ''Apple Inc. designs, manufactures, and markets smartphones.'')) = PDict d" and
    len: "length d = 14" and
    sym: "map_of d ''symbol'' = Some (PStr (upper ''aapl''))" and
    plain: "\<forall>(out, src) \<in> set
               [(''name'', ''longName''), (''currency'', ''currency''),
                (''marketCap'', ''marketCap''), (''peRatio'', ''trailingPE''),
                (''52WeekHigh'', ''fiftyTwoWeekHigh''), (''52WeekLow'', ''fiftyTwoWeekLow''),
                (''volume'', ''volume''), (''avgVolume'', ''averageVolume''),
                (''dividendYield'', ''dividendYield''), (''sector'', ''sector''),
                (''industry'', ''industry'')].
              map_of d out = Some (case map_of i src of None \<Rightarrow> PNone | Some x \<Rightarrow> x)"
    by (elim exE conjE) (rule that, assumption+)
  have "(''marketCap'', ''marketCap'') \<in> set
               [(''name'', ''longName''), (''currency'', ''currency''),
                (''marketCap'', ''marketCap''), (''peRatio'', ''trailingPE''),
                (''52WeekHigh'', ''fiftyTwoWeekHigh''), (''52WeekLow'', ''fiftyTwoWeekLow''),
                (''volume'', ''volume''), (''avgVolume'', ''averageVolume''),
                (''dividendYield'', ''dividendYield''), (''sector'', ''sector''),
                (''industry'', ''industry'')]"
    by simp
  from bspec [OF plain this]
  have cap: "map_of d ''marketCap'' = Some (case map_of i ''marketCap'' of None \<Rightarrow> PNone | Some x \<Rightarrow> x)"
    by simp
  from i have "i = quote_info"
    by (simp add: quote_provider_def serving_def unreachable_def)
  then have "map_of i ''marketCap'' = None"
    by (simp add: quote_info_def)
  with cap have "map_of d ''marketCap'' = Some PNone"
    by simp
  with d len sym show ?thesis
    using quote_provider_result by (intro exI [of _ d]) (simp add: upper_aapl)
qed

text \<open>
  C10. In the object of a successful call, \<open>price\<close> is the provider's
  \<open>regularMarketPrice\<close> whenever \<open>currentPrice\<close> is falsy: absent, null or zero (the
  integer or the float), and not only when it is absent. A truthy \<open>currentPrice\<close> is
  the price itself.
\<close>

theorem price_fallback:
  assumes "Ticker yf symbol = Inr ticker" and "info yf ticker = Inr i"
    and "get_stock_info yf symbol = Json_dumps (PDict d)"
  shows "(\<not> truthy (dict_get i ''currentPrice'')
            \<longrightarrow> map_of d ''price'' = Some (dict_get i ''regularMarketPrice'')) \<and>
         (map_of i ''currentPrice'' \<in> {None, Some PNone, Some (PInt 0), Some (PFloat 0)}
            \<longrightarrow> map_of d ''price'' = Some (dict_get i ''regularMarketPrice'')) \<and>
         (truthy (dict_get i ''currentPrice'')
            \<longrightarrow> map_of d ''price'' = Some (dict_get i ''currentPrice''))"
proof -
  from get_stock_info_Json [OF assms(3)] assms(1,2) obtain summary where
    d: "d = stock_info_dict symbol i summary"
    by auto
  have falsy: "map_of i ''currentPrice'' \<in> {None, Some PNone, Some (PInt 0), Some (PFloat 0)}
      \<Longrightarrow> \<not> truthy (dict_get i ''currentPrice'')"
    by (auto simp add: dict_get_def)
  show ?thesis
    using falsy by (auto simp add: d map_of_stock_info_dict py_or_def)
qed

text \<open>
  The instance the claim names: \<open>currentPrice\<close> is 0, \<open>regularMarketPrice\<close> is 189.3,
  and the price returned is 189.3.
\<close>

theorem price_fallback_witness:
  "map_of quote_info ''currentPrice'' = Some (PInt 0) \<and>
   map_of quote_info ''regularMarketPrice'' = Some (PFloat (1893 / 10)) \<and>
   get_stock_info quote_provider ''aapl'' =
     Json_dumps (PDict (stock_info_dict ''aapl'' quote_info
       (PStr ''Apple Inc. designs, manufactures, and markets smartphones.''))) \<and>
   map_of (stock_info_dict ''aapl'' quote_info
       (PStr ''Apple Inc. designs, manufactures, and markets smartphones.'')) ''price''
     = Some (PFloat (1893 / 10))"
proof -
  have t: "Ticker quote_provider ''aapl'' = Inr ()"
    by (simp add: quote_provider_def serving_def unreachable_def)
  have i: "info quote_provider () = Inr quote_info"
    by (simp add: quote_provider_def)
  have c: "map_of quote_info ''currentPrice'' = Some (PInt 0)"
    by (simp add: quote_info_def)
  have r: "map_of quote_info ''regularMarketPrice'' = Some (PFloat (1893 / 10))"
    by (simp add: quote_info_def)
  from r have g: "dict_get quote_info ''regularMarketPrice'' = PFloat (1893 / 10)"
    by (simp add: dict_get_def)
  from price_fallback [OF t i quote_provider_result] c
  have "map_of (stock_info_dict ''aapl'' quote_info
       (PStr ''Apple Inc. designs, manufactures, and markets smartphones.'')) ''price''
     = Some (dict_get quote_info ''regularMarketPrice'')"
    by simp
  with c r g show ?thesis
    using quote_provider_result by simp
qed

section \<open>News\<close>

text \<open>On a well-shaped item the loop body builds the entry described above.\<close>

lemma py_get_dict: "is_dict v \<Longrightarrow> py_get v k dflt = Inr (case nested v [k] of None \<Rightarrow> dflt | Some x \<Rightarrow> x)"
  by (cases v) (auto simp add: is_dict_def dict_get_default_def split: option.splits)

lemma article_well_shaped:
  assumes "well_shaped item"
  shows "article item = Inr (news_entry item)"
proof -
  from assms obtain d where item: "item = PDict d"
    by (cases item) (auto simp add: well_shaped_def is_dict_def)
  show ?thesis
  proof (cases "map_of d ''content''")
    case None
    then show ?thesis
      by (simp add: item article_def news_entry_def news_title_def news_publisher_def
          news_link_def dict_get_default_def split: option.splits)
  next
    case (Some c)
    with assms item obtain cd where c: "c = PDict cd"
      by (cases c) (auto simp add: well_shaped_def is_dict_def dict_or_absent_def)
    show ?thesis
    proof (cases "map_of cd ''provider''")
      case np: None
      show ?thesis
      proof (cases "map_of cd ''canonicalUrl''")
        case None
        with np Some c show ?thesis
          by (simp add: item article_def news_entry_def news_title_def news_publisher_def
              news_link_def dict_get_default_def split: option.splits)
      next
        case (Some u)
        with assms item \<open>map_of d ''content'' = Some c\<close> c obtain ud where "u = PDict ud"
          by (cases u) (auto simp add: well_shaped_def is_dict_def dict_or_absent_def)
        with np Some \<open>map_of d ''content'' = Some c\<close> c show ?thesis
          by (simp add: item article_def news_entry_def news_title_def news_publisher_def
              news_link_def dict_get_default_def split: option.splits)
      qed
    next
      case sp: (Some p)
      with assms item Some c obtain pd where p: "p = PDict pd"
        by (cases p) (auto simp add: well_shaped_def is_dict_def dict_or_absent_def)
      show ?thesis
      proof (cases "map_of cd ''canonicalUrl''")
        case None
        with sp p Some c show ?thesis
          by (simp add: item article_def news_entry_def news_title_def news_publisher_def
              news_link_def dict_get_default_def split: option.splits)
      next
        case su: (Some u)
        with assms item Some c obtain ud where "u = PDict ud"
          by (cases u) (auto simp add: well_shaped_def is_dict_def dict_or_absent_def)
        with sp p su Some c show ?thesis
          by (simp add: item article_def news_entry_def news_title_def news_publisher_def
              news_link_def dict_get_default_def split: option.splits)
      qed
    qed
  qed
qed

lemma collect_well_shaped:
  "list_all well_shaped items \<Longrightarrow> collect articles items = Inr (articles @ map news_entry items)"
  by (induction items arbitrary: articles) (simp_all add: article_well_shaped)

lemma str_or_absent_title:
  "str_or_absent item [''content'', ''title''] \<Longrightarrow> str_or_absent item [''title'']
     \<Longrightarrow> is_str (news_title item)"
  by (auto simp add: str_or_absent_def news_title_def is_str_def split: option.splits)

lemma str_or_absent_publisher:
  "str_or_absent item [''content'', ''provider'', ''displayName''] \<Longrightarrow> is_str (news_publisher item)"
  by (auto simp add: str_or_absent_def news_publisher_def is_str_def split: option.splits)

lemma str_or_absent_link:
  "str_or_absent item [''content'', ''canonicalUrl'', ''url''] \<Longrightarrow> is_str (news_link item)"
  by (auto simp add: str_or_absent_def news_link_def is_str_def split: option.splits)

text \<open>
  C4, as stated, fails. The first item below has a \<open>title\<close> that is present and null:
  \<open>get\<close> returns it, the placeholder is for an absent key only, and the entry returned
  has a null title. The second item has the legacy flat shape: its title is found, its
  \<open>publisher\<close> and \<open>link\<close> are not looked at, and the placeholders are returned for
  them.
\<close>

theorem news_strings_counterexample:
  "get_stock_news headlines_provider ''AAPL'' =
     Json_dumps (PList
       [PDict [(''title'', PNone), (''publisher'', PStr ''Reuters''),
               (''link'', PStr ''https://example.com/markets/1'')],
        PDict [(''title'', PStr ''Shares rally''), (''publisher'', PStr ''Unknown''),
               (''link'', PStr [])]])"
  by (simp add: get_stock_news_def get_stock_news_body_def catch_def headlines_provider_def serving_def unreachable_def
      headlines_def article_def dict_get_default_def)

text \<open>The entries returned for a list whose first five items are well-shaped.\<close>

lemma well_shaped_news:
  assumes "Ticker yf symbol = Inr ticker"
    and "news yf ticker = Inr (Some items)"
    and "items \<noteq> []"
    and "list_all well_shaped (take 5 items)"
  shows "get_stock_news yf symbol = Json_dumps (PList (map news_entry (take 5 items))) \<and>
         length (map news_entry (take 5 items)) \<le> 5 \<and>
         (\<forall>item \<in> set (take 5 items).
            (str_or_absent item [''content'', ''title''] \<and> str_or_absent item [''title'']
               \<longrightarrow> is_str (news_title item)) \<and>
            (str_or_absent item [''content'', ''provider'', ''displayName'']
               \<longrightarrow> is_str (news_publisher item)) \<and>
            (str_or_absent item [''content'', ''canonicalUrl'', ''url'']
               \<longrightarrow> is_str (news_link item)))"
proof -
  have "collect [] (take 5 items) = Inr (map news_entry (take 5 items))"
    using collect_well_shaped [OF assms(4), of "[]"] by simp
  with assms(1-3) have "get_stock_news yf symbol = Json_dumps (PList (map news_entry (take 5 items)))"
    by (simp add: get_stock_news_def get_stock_news_body_def catch_def)
  then show ?thesis
    by (simp add: str_or_absent_title str_or_absent_publisher str_or_absent_link)
qed

lemma length_collect:
  "collect articles items = Inr out \<Longrightarrow> length out = length articles + length items"
  by (induction items arbitrary: articles) (auto split: sum.splits)

lemma news_at_most_five:
  assumes "get_stock_news yf symbol = Json_dumps (PList out)"
  shows "length out \<le> 5"
proof -
  from assms obtain items where "collect [] (take 5 items) = Inr out"
    by (auto simp add: get_stock_news_def get_stock_news_body_def catch_def
        split: sum.splits option.splits if_splits)
  from length_collect [OF this] show ?thesis
    by simp
qed

text \<open>
  C4, amended. \<open>get_stock_news\<close> never returns more than five entries. For every
  non-empty news list whose first five items are well-shaped, it returns the entries of
  the first five items (of all the items when they are fewer), in the provider's order. Each entry has the keys
  \<open>title\<close>, \<open>publisher\<close> and \<open>link\<close>; a value is the one found under \<open>content\<close>
  (\<open>title\<close>, \<open>provider.displayName\<close>, \<open>canonicalUrl.url\<close>), for the title else the one
  under the item's own \<open>title\<close>, else the placeholder \<open>No title\<close>, \<open>Unknown\<close> or the
  empty string. A value is a string whenever the values present at its sources are
  strings.
\<close>

theorem news_entries:
  "(get_stock_news yf symbol = Json_dumps (PList out) \<longrightarrow> length out \<le> 5) \<and>
   (Ticker yf symbol = Inr ticker \<and> news yf ticker = Inr (Some items) \<and> items \<noteq> [] \<and>
    list_all well_shaped (take 5 items) \<longrightarrow>
      get_stock_news yf symbol = Json_dumps (PList (map news_entry (take 5 items))) \<and>
      length (map news_entry (take 5 items)) = min 5 (length items) \<and>
      (\<forall>item \<in> set (take 5 items).
         (str_or_absent item [''content'', ''title''] \<and> str_or_absent item [''title'']
            \<longrightarrow> is_str (news_title item)) \<and>
         (str_or_absent item [''content'', ''provider'', ''displayName'']
            \<longrightarrow> is_str (news_publisher item)) \<and>
         (str_or_absent item [''content'', ''canonicalUrl'', ''url'']
            \<longrightarrow> is_str (news_link item))))"
proof (intro conjI impI)
  assume "get_stock_news yf symbol = Json_dumps (PList out)"
  then show "length out \<le> 5"
    by (rule news_at_most_five)
next
  assume h: "Ticker yf symbol = Inr ticker \<and> news yf ticker = Inr (Some items) \<and> items \<noteq> [] \<and>
    list_all well_shaped (take 5 items)"
  then have t: "Ticker yf symbol = Inr ticker" and n: "news yf ticker = Inr (Some items)"
    and ne: "items \<noteq> []" and w: "list_all well_shaped (take 5 items)"
    by simp_all
  from well_shaped_news [OF t n ne w]
  show "get_stock_news yf symbol = Json_dumps (PList (map news_entry (take 5 items)))"
    by (rule conjunct1)
  show "length (map news_entry (take 5 items)) = min 5 (length items)"
    by simp
  from well_shaped_news [OF t n ne w]
  show "\<forall>item \<in> set (take 5 items).
         (str_or_absent item [''content'', ''title''] \<and> str_or_absent item [''title'']
            \<longrightarrow> is_str (news_title item)) \<and>
         (str_or_absent item [''content'', ''provider'', ''displayName'']
            \<longrightarrow> is_str (news_publisher item)) \<and>
         (str_or_absent item [''content'', ''canonicalUrl'', ''url'']
            \<longrightarrow> is_str (news_link item))"
    by (rule conjunct2 [THEN conjunct2])
qed

theorem news_entries_witness:
  "list_all well_shaped (take 5 six_items) \<and>
   get_stock_news six_items_provider ''AAPL'' =
     Json_dumps (PList
       [PDict [(''title'', PStr ''Earnings beat''), (''publisher'', PStr ''Reuters''),
               (''link'', PStr ''https://example.com/markets/1'')],
        PDict [(''title'', PStr ''Shares rally''), (''publisher'', PStr ''Unknown''),
               (''link'', PStr [])],
        PDict [(''title'', PStr ''No title''), (''publisher'', PStr ''Unknown''),
               (''link'', PStr [])],
        PDict [(''title'', PStr ''Outlook''), (''publisher'', PStr ''Unknown''),
               (''link'', PStr [])],
        PDict [(''title'', PStr ''No title''), (''publisher'', PStr ''Unknown''),
               (''link'', PStr [])]])"
proof -
  let ?yf = "six_items_provider"
  have t: "Ticker ?yf ''AAPL'' = Inr ()"
    by (simp add: six_items_provider_def serving_def unreachable_def)
  have n: "news ?yf () = Inr (Some six_items)"
    by (simp add: six_items_provider_def)
  have ne: "six_items \<noteq> []"
    by (simp add: six_items_def)
  have w: "list_all well_shaped (take 5 six_items)"
    by (simp add: six_items_def well_shaped_def is_dict_def dict_or_absent_def)
  have m: "map news_entry (take 5 six_items) =
       [PDict [(''title'', PStr ''Earnings beat''), (''publisher'', PStr ''Reuters''),
               (''link'', PStr ''https://example.com/markets/1'')],
        PDict [(''title'', PStr ''Shares rally''), (''publisher'', PStr ''Unknown''),
               (''link'', PStr [])],
        PDict [(''title'', PStr ''No title''), (''publisher'', PStr ''Unknown''),
               (''link'', PStr [])],
        PDict [(''title'', PStr ''Outlook''), (''publisher'', PStr ''Unknown''),
               (''link'', PStr [])],
        PDict [(''title'', PStr ''No title''), (''publisher'', PStr ''Unknown''),
               (''link'', PStr [])]]"
    by (simp add: six_items_def news_entry_def news_title_def news_publisher_def news_link_def)
  from news_entries [of six_items_provider "''AAPL''" _ "()" six_items] t n ne w have
    "get_stock_news ?yf ''AAPL'' = Json_dumps (PList (map news_entry (take 5 six_items)))"
    by simp
  with w m show ?thesis
    by simp
qed

section \<open>Rows returned from a table\<close>

lemma zip_map2_self: "zip xs (map2 k xs ys) = map (\<lambda>(c, v). (c, k c v)) (zip xs ys)"
  by (induction xs arbitrary: ys) (auto split: list.splits simp add: zip_Cons1)

lemma map_enumerated:
  "map (\<lambda>ir. F (snd ir)) (zip [0 ..< length xs] xs) = map F xs"
proof -
  have "map (\<lambda>ir. F (snd ir)) (zip [0 ..< length xs] xs)
          = map F (map snd (zip [0 ..< length xs] xs))"
    by (simp only: map_map comp_def)
  also have "\<dots> = map F xs"
    by (simp add: map_snd_zip)
  finally show ?thesis .
qed


lemma reset_index_ok:
  assumes "CStr (reset_label df) \<notin> set (columns df)"
  shows "reset_index df =
           Inr \<lparr>index_name = None, columns = CStr (reset_label df) # columns df,
                rows = map (\<lambda>(i, (l, cs)). (CInt (int i), l # cs))
                         (zip [0 ..< length (rows df)] (rows df))\<rparr>"
  using assms by (simp add: reset_index_def)

lemma length_rows_set_date: "length (rows (set_date f df)) = length (rows df)"
  by (simp add: set_date_def column_astype_str_def add_column_def)

lemma to_json_records_tail:
  assumes "distinct (columns df)"
  shows "to_json_records (tail n df)
           = Inr (Json_records (drop (length (rows df) - n) (map (row_object df) (rows df))))"
  using assms by (simp add: to_json_records_def tail_def row_object_def drop_map)

text \<open>
  The row objects of the table after \<open>reset_index\<close> and the \<open>Date\<close> step, in terms of
  the provider's rows.
\<close>

lemma records_after_set_date:
  assumes "provider_table df"
    and "reset_index df = Inr df1"
  shows "distinct (columns (set_date f df1))"
    and "map (row_object (set_date f df1)) (rows (set_date f df1))
           = map (recommendation_object f df) (rows df)"
proof -
  let ?cols = "CStr (reset_label df) # columns df"
  from assms have fresh: "CStr (reset_label df) \<notin> set (columns df)"
    and dist: "distinct (columns df)"
    and len: "list_all (\<lambda>r. length (snd r) = length (columns df)) (rows df)"
    by (simp_all add: provider_table_def)
  from assms(2) reset_index_ok [OF fresh] have df1:
    "df1 = \<lparr>index_name = None, columns = ?cols,
            rows = map (\<lambda>(i, (l, cs)). (CInt (int i), l # cs))
                     (zip [0 ..< length (rows df)] (rows df))\<rparr>"
    by simp
  show "distinct (columns (set_date f df1))"
    using fresh dist by (auto simp add: df1 set_date_def column_astype_str_def add_column_def)
  show "map (row_object (set_date f df1)) (rows (set_date f df1))
           = map (recommendation_object f df) (rows df)"
  proof (cases "CStr ''Date'' \<in> set ?cols")
    case True
    then have "map (row_object (set_date f df1)) (rows (set_date f df1))
        = map (\<lambda>ir. recommendation_object f df (snd ir)) (zip [0 ..< length (rows df)] (rows df))"
      by (auto simp add: df1 set_date_def column_astype_str_def row_object_def
          recommendation_object_def date_as_text_def with_index_def zip_map2_self
          simp del: zip_Cons_Cons)
    then show ?thesis
      by (simp only: map_enumerated)
  next
    case False
    have "\<And>i r. (i, r) \<in> set (zip [0 ..< length (rows df)] (rows df))
            \<Longrightarrow> length (snd r) = length (columns df)"
      using len by (auto simp add: list_all_iff dest: set_zip_rightD)
    with False have "map (row_object (set_date f df1)) (rows (set_date f df1))
        = map (\<lambda>ir. recommendation_object f df (snd ir)) (zip [0 ..< length (rows df)] (rows df))"
      by (auto simp add: df1 set_date_def add_column_def row_object_def
          recommendation_object_def with_index_def)
    then show ?thesis
      by (simp only: map_enumerated)
  qed
qed

lemma astype_str_is_text: "\<exists>s. astype_str f v = CStr s"
  by (cases v) (simp_all add: astype_str_def)

lemma map_of_date_as_text:
  "map_of (date_as_text f obj) (CStr ''Date'')
     = map_option (astype_str f) (map_of obj (CStr ''Date''))"
  by (induction obj) (auto simp add: date_as_text_def)

lemma bar_object_date:
  assumes "CStr ''Date'' \<in> set (CStr (reset_label df) # columns df)"
    and "length (snd r) = length (columns df)"
  shows "\<exists>s. map_of (bar_object f df r) (CStr ''Date'') = Some (CStr s)"
proof -
  have "length (CStr (reset_label df) # columns df) = length (fst r # snd r)"
    using assms(2) by simp
  then have "CStr ''Date'' \<in> fst ` set (with_index df r)"
    using assms(1) unfolding with_index_def by (simp only: set_zip_leftD map_fst_zip flip: set_map)
  then obtain v where "map_of (with_index df r) (CStr ''Date'') = Some v"
    by (metis domD dom_map_of_conv_image_fst)
  then show ?thesis
    using astype_str_is_text [of f v] by (simp add: bar_object_def map_of_date_as_text)
qed

text \<open>
  C3. The provider returns a non-empty table of one-minute bars; yfinance names the
  index of an intraday table \<open>Datetime\<close>. After \<open>reset_index\<close> there is no \<open>Date\<close>
  column, \<open>hist['Date']\<close> raises \<open>KeyError\<close>, and the handler returns the error text
  in place of the rows. (\<open>get_recommendations\<close> asks whether \<open>Date\<close> is a column
  before it reads it.)
\<close>

theorem intraday_history_key_error:
  "provider_table intraday_bars \<and> \<not> df_empty intraday_bars \<and>
   get_historical_prices intraday_provider ''AAPL'' ''1d'' ''1m''
     = Text (''Error: '' @ quoted ''Date'')"
  by (simp add: provider_table_def df_empty_def intraday_bars_def get_historical_prices_def
      get_historical_prices_body_def catch_def error_text_def intraday_provider_def serving_def unreachable_def
      reset_index_def reset_label_def getitem_def)

text \<open>
  For a table that has a \<open>Date\<close> column once the index is reset (the daily, weekly and
  monthly tables), \<open>get_historical_prices\<close> returns the objects of the last 20 rows,
  in the table's order, and the \<open>Date\<close> of each is a string. The rows returned are in
  chronological order when the table is.
\<close>

lemma date_indexed_history:
  fixes date_of :: "cell \<times> cell list \<Rightarrow> 'a::linorder"
  assumes "Ticker yf symbol = Inr ticker"
    and "history yf ticker period interval = Inr hist"
    and "\<not> df_empty hist"
    and "provider_table hist"
    and "CStr ''Date'' \<in> set (CStr (reset_label hist) # columns hist)"
  shows "get_historical_prices yf symbol period interval =
           Json_records (map (bar_object (to_str yf) hist)
                           (drop (length (rows hist) - 20) (rows hist)))"
    and "length (drop (length (rows hist) - 20) (rows hist)) \<le> 20"
    and "\<forall>r \<in> set (rows hist). \<exists>s. map_of (bar_object (to_str yf) hist r) (CStr ''Date'') = Some (CStr s)"
    and "sorted (map date_of (rows hist))
           \<Longrightarrow> sorted (map date_of (drop (length (rows hist) - 20) (rows hist)))"
proof -
  from assms(4) have fresh: "CStr (reset_label hist) \<notin> set (columns hist)"
    by (simp add: provider_table_def)
  from reset_index_ok [OF this] obtain hist1 where r1: "reset_index hist = Inr hist1"
    by blast
  have n: "length (rows hist1) = length (rows hist)"
    and c: "columns hist1 = CStr (reset_label hist) # columns hist"
    using r1 fresh by (auto simp add: reset_index_def)
  from assms(5) c have sd: "set_date (to_str yf) hist1 = column_astype_str (to_str yf) ''Date'' hist1"
    by (simp add: set_date_def)
  from assms(5) c have g: "\<exists>dates. getitem hist1 ''Date'' = Inr dates"
    by (simp add: getitem_def)
  from assms(5) have eq: "recommendation_object (to_str yf) hist = bar_object (to_str yf) hist"
    by (auto simp add: recommendation_object_def bar_object_def)
  let ?sd = "set_date (to_str yf) hist1"
  have "to_json_records (tail 20 ?sd)
          = Inr (Json_records (drop (length (rows ?sd) - 20) (map (row_object ?sd) (rows ?sd))))"
    by (rule to_json_records_tail) (rule records_after_set_date(1) [OF assms(4) r1])
  also have "\<dots> = Inr (Json_records (map (bar_object (to_str yf) hist)
                           (drop (length (rows hist) - 20) (rows hist))))"
    by (simp only: records_after_set_date(2) [OF assms(4) r1] length_rows_set_date n drop_map eq)
  finally show "get_historical_prices yf symbol period interval =
           Json_records (map (bar_object (to_str yf) hist)
                           (drop (length (rows hist) - 20) (rows hist)))"
    using assms(1-3) r1 g sd
    by (auto simp add: get_historical_prices_def get_historical_prices_body_def catch_def)
  show "length (drop (length (rows hist) - 20) (rows hist)) \<le> 20"
    by simp
  show "\<forall>r \<in> set (rows hist). \<exists>s. map_of (bar_object (to_str yf) hist r) (CStr ''Date'') = Some (CStr s)"
    using assms(4,5) by (auto simp add: provider_table_def list_all_iff intro!: bar_object_date)
  show "sorted (map date_of (rows hist))
           \<Longrightarrow> sorted (map date_of (drop (length (rows hist) - 20) (rows hist)))"
    by (simp only: sorted_wrt_drop flip: drop_map)
qed


lemma length_records_tail:
  assumes "to_json_records (tail n df) = Inr (Json_records out)"
  shows "length out = min n (length (rows df))"
  using assms by (auto simp add: to_json_records_def tail_def split: if_splits)


lemma historical_prices_at_most_twenty:
  assumes "get_historical_prices yf symbol period interval = Json_records out"
  shows "length out \<le> 20"
proof -
  from assms obtain hist1 where
    "to_json_records (tail 20 (column_astype_str (to_str yf) ''Date'' hist1)) = Inr (Json_records out)"
    by (auto simp add: get_historical_prices_def get_historical_prices_body_def catch_def
        split: sum.splits option.splits if_splits)
  from length_records_tail [OF this] show ?thesis
    by simp
qed



end
